theory Spec2Isabelle
  imports Main
begin

section \<open>Data model of the modal component (src/index.tsx)\<close>

text \<open>
  The component is a React class. Its per-instance fields (\<open>id\<close>, \<open>parent\<close>, \<open>portal\<close>,
  \<open>prevFocused\<close>, \<open>animated\<close>, \<open>state.stage\<close>, \<open>props\<close>) become the record \<open>modal\<close>;
  everything it shares with the rest of the page (the module-level \<open>nextId\<close> and \<open>parents\<close>,
  the \<open>dataset\<close> and \<open>style\<close> of the container elements, the listeners of the document, the
  focused element) becomes the record \<open>world\<close>. A method is a function on pairs
  \<open>(world, modal)\<close>. Calls of user callbacks, \<open>setState\<close> and \<open>preventDefault\<close> are
  appended to a log, in the order the code performs them.

  What the model fixes beyond the source: \<open>setState\<close> takes effect at once and then runs
  its callback (no method reads the stage in between); a callback of the props is opaque, the
  log has its name; \<open>element.focus()\<close> makes the element the active one; the
  \<open>Animatable\<close> and \<open>Portal\<close> children are not modelled, their signals are the events of a
  run and the root element of the portal is a field of the instance. \<open>onDocClick\<close> needs
  the containment relation of the DOM and no statement below is about it, so it is left out;
  its registration on the document is modelled.
\<close>

datatype stage = OPENING | OPENED | CLOSING | CLOSED

text \<open>Container elements: \<open>document.body\<close>, \<open>document.documentElement\<close>, any other element.\<close>

datatype container = BODY | ROOT | Node nat

text \<open>An instance id is \<open>props.id\<close> (a string) or a generated number.\<close>

datatype ident = IdStr string | IdNum nat

text \<open>A DOM element that can hold focus; the flag says whether it has a \<open>focus\<close> method.\<close>

datatype element = Element (el_key: nat) (has_focus: bool)

text \<open>The two document listeners of an instance are its own arrow functions.\<close>

datatype handler = OnKeydown nat | OnDocClick nat

datatype effect = SetState nat stage | Called string | PreventDefault

record props =
  show_flag :: bool
  id_prop :: "string option"
  appendTo :: "container option"
  noBackdrop :: bool
  noFocus :: bool
  allowScroll :: bool
  withDocumentClicks :: bool
  noBackdropClicks :: bool
  className :: "string option"
  classNameBody :: "string option"
  classNameBackdrop :: "string option"
  classPrefixBody :: "string option"
  classPrefixBackdrop :: "string option"
  onCloseRequest_cb :: string
  beforeOpen_cb :: "string option"
  beforeClose_cb :: "string option"
  onOpen_cb :: "string option"
  onClose_cb :: "string option"

record modal =
  self :: nat
  ident :: ident
  parent :: container
  portal :: "element option"
  prevFocused :: "element option"
  animated :: int
  stage :: stage
  props :: props

record world =
  nextId :: nat
  parents :: "container \<rightharpoonup> ident list"
  styleCache :: "container \<rightharpoonup> string"
  scrollDisabledBy :: "container \<rightharpoonup> string"
  styleAttr :: "container \<rightharpoonup> string"
  scrollStyle :: "string \<Rightarrow> string"
  listeners :: "(string \<times> handler) set"
  activeElement :: "element option"
  log :: "effect list"

type_synonym config = "world \<times> modal"

section \<open>JavaScript primitives the methods use\<close>

text \<open>\<open>Number.prototype.toString\<close> on a non-negative integer: its decimal digits.\<close>

fun digits :: "nat \<Rightarrow> string" where
  "digits n = (if n < 10 then [char_of (48 + n)]
               else digits (n div 10) @ [char_of (48 + n mod 10)])"

declare digits.simps [simp del]

fun toString :: "ident \<Rightarrow> string" where
  "toString (IdStr s) = s"
| "toString (IdNum n) = digits n"

text \<open>\<open>Array.prototype.indexOf\<close>: the first position of the value, \<open>-1\<close> when absent.\<close>

fun indexOf :: "'a list \<Rightarrow> 'a \<Rightarrow> int" where
  "indexOf [] x = -1"
| "indexOf (y # ys) x =
     (if y = x then 0 else (let r = indexOf ys x in if r < 0 then -1 else r + 1))"

text \<open>
  \<open>xs.splice(start, 1)\<close>: a negative \<open>start\<close> counts from the end of the array (clamped at
  0), a \<open>start\<close> beyond the end is clamped to the length; one element is removed there, if
  there is one.
\<close>

definition splice1 :: "'a list \<Rightarrow> int \<Rightarrow> 'a list" where
  "splice1 xs start =
     (let n = int (length xs);
          s = (if start < 0 then max (n + start) 0 else min start n)
      in take (nat s) xs @ drop (nat s + 1) xs)"

text \<open>\<open>cb && cb()\<close> for an optional callback of the props.\<close>

definition call :: "string option \<Rightarrow> world \<Rightarrow> world" where
  "call cb w = (case cb of None \<Rightarrow> w | Some l \<Rightarrow> w\<lparr>log := log w @ [Called l]\<rparr>)"

text \<open>\<open>style.cssText\<close> of an element: the text of its style attribute, empty when absent.\<close>

definition cssText :: "world \<Rightarrow> container \<Rightarrow> string" where
  "cssText w t = (case styleAttr w t of None \<Rightarrow> [] | Some s \<Rightarrow> s)"

text \<open>\<open>element.focus()\<close>.\<close>

definition focus :: "element \<Rightarrow> world \<Rightarrow> world" where
  "focus e w = w\<lparr>activeElement := Some e\<rparr>"

text \<open>
  Modelled from the spec: \<open>disableScroll\<close> of the package \<open>@tolkam/lib-utils-ui\<close>, which is
  imported and not part of the sources. The spec's style utility "computes scroll-suppressing
  style overrides and returns the previous style string for later restoration". The overrides
  depend on the layout of the page, so they are the parameter \<open>scrollStyle\<close> of the world.
\<close>

definition lib_disableScroll :: "container \<Rightarrow> world \<Rightarrow> world \<times> string" where
  "lib_disableScroll t w =
     (let prev = cssText w t
      in (w\<lparr>styleAttr := (styleAttr w)(t \<mapsto> scrollStyle w prev)\<rparr>, prev))"

section \<open>The methods of the component\<close>

text \<open>
  \<open>constructor\<close>: \<open>that.id = props.id || ++nextId\<close> (the empty string is falsy),
  \<open>that.parent = props.appendTo || BODY\<close>, \<open>stage: props.show ? OPENED : CLOSED\<close>.
  The first argument is the identity of the new object, the second the root element the
  portal mounts for it (what \<open>portal.getElement()\<close> returns), the third the props.
\<close>

definition constructor :: "nat \<Rightarrow> element option \<Rightarrow> props \<Rightarrow> world \<Rightarrow> config" where
  "constructor r el p w =
     (let (w1, i) = (case id_prop p of
                       Some s \<Rightarrow> if s \<noteq> [] then (w, IdStr s)
                                 else (w\<lparr>nextId := nextId w + 1\<rparr>, IdNum (nextId w + 1))
                     | None \<Rightarrow> (w\<lparr>nextId := nextId w + 1\<rparr>, IdNum (nextId w + 1)))
      in (w1, \<lparr>self = r, ident = i,
               parent = (case appendTo p of Some c \<Rightarrow> c | None \<Rightarrow> BODY),
               portal = el, prevFocused = None, animated = 0,
               stage = (if show_flag p then OPENED else CLOSED), props = p\<rparr>))"

text \<open>\<open>this.setState({stage: st}, cb)\<close>: the stage is set, then the callback runs.\<close>

definition setState :: "stage \<Rightarrow> (config \<Rightarrow> config) \<Rightarrow> config \<Rightarrow> config" where
  "setState st cb c =
     (case c of (w, i) \<Rightarrow> cb (w\<lparr>log := log w @ [SetState (self i) st]\<rparr>, i\<lparr>stage := st\<rparr>))"

definition target :: "modal \<Rightarrow> container" where
  "target i = (if parent i = BODY then ROOT else parent i)"

definition disableScroll :: "config \<Rightarrow> config" where
  "disableScroll c =
     (case c of (w, i) \<Rightarrow>
        if allowScroll (props i) then c
        else if styleCache w (target i) = None then
          (case lib_disableScroll (target i) w of (w1, prev) \<Rightarrow>
             (w1\<lparr>styleCache := (styleCache w1)(target i \<mapsto> prev),
                  scrollDisabledBy := (scrollDisabledBy w1)(target i \<mapsto> toString (ident i))\<rparr>, i))
        else c)"

definition restoreScroll :: "config \<Rightarrow> config" where
  "restoreScroll c =
     (case c of (w, i) \<Rightarrow>
        if scrollDisabledBy w (target i) \<noteq> Some (toString (ident i)) then c
        else
          (let w1 = (case styleCache w (target i) of
                       Some s \<Rightarrow> w\<lparr>styleAttr := (styleAttr w)(target i \<mapsto> s),
                                    styleCache := (styleCache w)(target i := None),
                                    scrollDisabledBy := (scrollDisabledBy w)(target i := None)\<rparr>
                     | None \<Rightarrow> w);
               w2 = (if cssText w1 (target i) = []
                     then w1\<lparr>styleAttr := (styleAttr w1)(target i := None)\<rparr> else w1)
           in (w2, i)))"

definition storeFocus :: "config \<Rightarrow> config" where
  "storeFocus c =
     (case c of (w, i) \<Rightarrow>
        ((case portal i of Some e \<Rightarrow> focus e w | None \<Rightarrow> w),
         i\<lparr>prevFocused := activeElement w\<rparr>))"

definition restoreFocus :: "config \<Rightarrow> config" where
  "restoreFocus c =
     (case c of (w, i) \<Rightarrow>
        (case prevFocused i of
           Some e \<Rightarrow> if has_focus e then (focus e w, i) else c
         | None \<Rightarrow> c))"

definition addDocEvents :: "config \<Rightarrow> config" where
  "addDocEvents c =
     (case c of (w, i) \<Rightarrow>
        (let w1 = (if withDocumentClicks (props i)
                   then w\<lparr>listeners := insert (''click'', OnDocClick (self i)) (listeners w)\<rparr>
                   else w)
         in (w1\<lparr>listeners := insert (''keydown'', OnKeydown (self i)) (listeners w1)\<rparr>, i)))"

definition removeDocEvents :: "config \<Rightarrow> config" where
  "removeDocEvents c =
     (case c of (w, i) \<Rightarrow>
        (let w1 = (if withDocumentClicks (props i)
                   then w\<lparr>listeners := listeners w - {(''click'', OnDocClick (self i))}\<rparr>
                   else w)
         in (w1\<lparr>listeners := listeners w1 - {(''keydown'', OnKeydown (self i))}\<rparr>, i)))"

definition register :: "config \<Rightarrow> config" where
  "register c =
     (case c of (w, i) \<Rightarrow>
        (case parents w (parent i) of
           None \<Rightarrow> (w\<lparr>parents := (parents w)(parent i \<mapsto> [ident i])\<rparr>, i)
         | Some ids \<Rightarrow> (w\<lparr>parents := (parents w)(parent i \<mapsto> ident i # ids)\<rparr>, i)))"

definition unregister :: "config \<Rightarrow> config" where
  "unregister c =
     (case c of (w, i) \<Rightarrow>
        (case parents w (parent i) of
           None \<Rightarrow> c
         | Some ids \<Rightarrow>
             (let ids1 = splice1 ids (indexOf ids (ident i))
              in if ids1 = [] then (w\<lparr>parents := (parents w)(parent i := None)\<rparr>, i)
                 else (w\<lparr>parents := (parents w)(parent i \<mapsto> ids1)\<rparr>, i))))"

definition isOnTop :: "config \<Rightarrow> bool" where
  "isOnTop c =
     (case c of (w, i) \<Rightarrow>
        (case parents w (parent i) of
           None \<Rightarrow> False
         | Some ids \<Rightarrow> (case ids of [] \<Rightarrow> False | x # _ \<Rightarrow> x = ident i)))"

definition onOpen :: "config \<Rightarrow> config" where
  "onOpen c =
     (let c1 = addDocEvents (register c);
          c2 = (if \<not> noFocus (props (snd c1)) then storeFocus c1 else c1)
      in (call (onOpen_cb (props (snd c2))) (fst c2), snd c2))"

definition onClose :: "config \<Rightarrow> config" where
  "onClose c =
     (let c1 = restoreScroll (restoreFocus (removeDocEvents (unregister c)))
      in (call (onClose_cb (props (snd c1))) (fst c1), snd c1))"

definition beforeOpen :: "config \<Rightarrow> config" where
  "beforeOpen c =
     (case c of (w, i) \<Rightarrow> disableScroll (call (beforeOpen_cb (props i)) w, i))"

definition beforeClose :: "config \<Rightarrow> config" where
  "beforeClose c = (case c of (w, i) \<Rightarrow> (call (beforeClose_cb (props i)) w, i))"

definition componentDidUpdate :: "config \<Rightarrow> config" where
  "componentDidUpdate c =
     (case c of (w, i) \<Rightarrow>
        (let curShow = show_flag (props i); curStage = stage i
         in if curShow \<and> curStage = CLOSED \<or> \<not> curShow \<and> curStage = OPENED
            then setState (if curShow then OPENING else CLOSING)
                          (if curShow then beforeOpen else beforeClose) c
            else c))"

definition componentWillUnmount :: "config \<Rightarrow> config" where
  "componentWillUnmount c = onClose c"

definition expectedCount :: "modal \<Rightarrow> int" where
  "expectedCount i = (if noBackdrop (props i) then 1 else 2)"

definition onOpening :: "config \<Rightarrow> config" where
  "onOpening c =
     (case c of (w, i) \<Rightarrow>
        (let i1 = i\<lparr>animated := animated i + 1\<rparr>
         in if animated i1 = expectedCount i1 then setState OPENED onOpen (w, i1)
            else (w, i1)))"

definition onClosing :: "config \<Rightarrow> config" where
  "onClosing c =
     (case c of (w, i) \<Rightarrow>
        (let i1 = i\<lparr>animated := animated i - 1\<rparr>
         in if animated i1 = 0 then setState CLOSED onClose (w, i1)
            else (w, i1)))"

definition onClick :: "config \<Rightarrow> config" where
  "onClick c = (case c of (w, i) \<Rightarrow> (call (Some (onCloseRequest_cb (props i))) w, i))"

text \<open>\<open>onKeydown(e)\<close>; the argument is \<open>e.key\<close>.\<close>

definition onKeydown :: "string \<Rightarrow> config \<Rightarrow> config" where
  "onKeydown key c =
     (case c of (w, i) \<Rightarrow>
        if key = ''Escape'' \<and> isOnTop c
        then (call (Some (onCloseRequest_cb (props i))) (w\<lparr>log := log w @ [PreventDefault]\<rparr>), i)
        else c)"

subsection \<open>Render projection\<close>

text \<open>What \<open>render\<close> hands to one \<open>Animatable\<close>, and to the \<open>Portal\<close>.\<close>

record animatable =
  a_show :: bool
  a_animateAppear :: bool
  a_className :: string
  a_classPrefix :: string
  a_onClick :: bool

record rendered =
  r_to :: container
  r_className :: string
  r_body :: animatable
  r_backdrop :: "animatable option"

text \<open>\<open>x ?? d\<close>.\<close>

definition nullish :: "'a option \<Rightarrow> 'a \<Rightarrow> 'a" where
  "nullish x d = (case x of None \<Rightarrow> d | Some v \<Rightarrow> v)"

definition render :: "modal \<Rightarrow> rendered option" where
  "render i =
     (let p = props i;
          cn = nullish (className p) ''modal'';
          bdClassName = nullish (classNameBackdrop p) (cn @ ''__backdrop'');
          bodyClassName = nullish (classNameBody p) (cn @ ''__body'');
          bodyAnimationsPrefix = nullish (classPrefixBody p) (bodyClassName @ ''-'');
          bdAnimationsPrefix = nullish (classPrefixBackdrop p) (bdClassName @ ''-'')
      in if stage i = CLOSED then None
         else Some \<lparr>r_to = parent i, r_className = cn,
                    r_body = \<lparr>a_show = (stage i \<noteq> CLOSING), a_animateAppear = True,
                               a_className = bodyClassName,
                               a_classPrefix = bodyAnimationsPrefix, a_onClick = False\<rparr>,
                    r_backdrop =
                      (if \<not> noBackdrop p
                       then Some \<lparr>a_show = (stage i \<noteq> CLOSING), a_animateAppear = True,
                                  a_className = bdClassName,
                                  a_classPrefix = bdAnimationsPrefix,
                                  a_onClick = (\<not> noBackdropClicks p)\<rparr>
                       else None)\<rparr>)"

section \<open>Runs of one instance\<close>

text \<open>
  What reaches an instance after its construction: a re-render with a new value of
  \<open>props.show\<close>, followed by \<open>componentDidUpdate\<close>; a re-render with any new props, followed
  by \<open>componentDidUpdate\<close> (\<open>id\<close> and \<open>parent\<close> were fixed by the constructor, the other
  props are read when a method runs); an \<open>onEntered\<close> signal of one of its \<open>Animatable\<close>
  children (wired to \<open>onOpening\<close>); an \<open>onCompleted\<close> signal (wired to \<open>onClosing\<close>). The
  \<open>componentDidUpdate\<close> that follows a \<open>setState\<close> of the instance itself is the event
  \<open>Update\<close> with the show flag the props already have.
\<close>

datatype event = Update bool | Render props | Entered | Completed

fun step :: "event \<Rightarrow> config \<Rightarrow> config" where
  "step (Update s) c =
     componentDidUpdate (fst c, (snd c)\<lparr>props := (props (snd c))\<lparr>show_flag := s\<rparr>\<rparr>)"
| "step (Render p) c = componentDidUpdate (fst c, (snd c)\<lparr>props := p\<rparr>)"
| "step Entered c = onOpening c"
| "step Completed c = onClosing c"

fun run :: "event list \<Rightarrow> config \<Rightarrow> config" where
  "run [] c = c"
| "run (e # es) c = run es (step e c)"

text \<open>
  A signal is in phase when its direction is that of the running transition: the children
  report \<open>onEntered\<close> while the instance is \<open>OPENING\<close> and \<open>onCompleted\<close> while it is
  \<open>CLOSING\<close>.
\<close>

fun in_phase :: "event \<Rightarrow> config \<Rightarrow> bool" where
  "in_phase (Update s) c = True"
| "in_phase (Render p) c = True"
| "in_phase Entered c = (stage (snd c) = OPENING)"
| "in_phase Completed c = (stage (snd c) = CLOSING)"

fun conforms :: "event list \<Rightarrow> config \<Rightarrow> bool" where
  "conforms [] c = True"
| "conforms (e # es) c = (in_phase e c \<and> conforms es (step e c))"

text \<open>The stages an instance has set, in order, as the log has them.\<close>

fun transitions :: "nat \<Rightarrow> effect list \<Rightarrow> stage list" where
  "transitions r [] = []"
| "transitions r (SetState r' st # es) =
     (if r' = r then st # transitions r es else transitions r es)"
| "transitions r (_ # es) = transitions r es"

section \<open>Listeners and stages\<close>

text \<open>
  \<open>keydown_wired\<close>: the keydown listener of the instance is on the document exactly in the
  stages \<open>OPENED\<close> and \<open>CLOSING\<close>. \<open>click_wired\<close>: its click listener is there exactly in
  these stages when \<open>withDocumentClicks\<close> is set, and in no stage when it is not.
\<close>

definition stage_on :: "modal \<Rightarrow> bool" where
  "stage_on i = (stage i = OPENED \<or> stage i = CLOSING)"

definition keydown_wired :: "config \<Rightarrow> bool" where
  "keydown_wired c =
     (((''keydown'', OnKeydown (self (snd c))) \<in> listeners (fst c)) = stage_on (snd c))"

definition click_wired :: "config \<Rightarrow> bool" where
  "click_wired c =
     (((''click'', OnDocClick (self (snd c))) \<in> listeners (fst c)) =
        (withDocumentClicks (props (snd c)) \<and> stage_on (snd c)))"

text \<open>
  A run keeps \<open>withDocumentClicks\<close> steady when no re-render changes it while the stage is
  \<open>OPENED\<close> or \<open>CLOSING\<close>, that is between \<open>addDocEvents\<close> and \<open>removeDocEvents\<close>, which both
  read it.
\<close>

fun steady :: "event \<Rightarrow> config \<Rightarrow> bool" where
  "steady (Render p) c =
     (if stage_on (snd c) then withDocumentClicks p = withDocumentClicks (props (snd c))
      else True)"
| "steady (Update s) c = True"
| "steady Entered c = True"
| "steady Completed c = True"

fun clicks_steady :: "event list \<Rightarrow> config \<Rightarrow> bool" where
  "clicks_steady [] c = True"
| "clicks_steady (e # es) c = (steady e c \<and> clicks_steady es (step e c))"

section \<open>Concrete values\<close>

text \<open>
  A page with nothing open, and the props of a modal with a backdrop, focus capture, scroll
  locking and document clicks, every callback given. The theorems below are instantiated at
  these values.
\<close>

definition props0 :: props where
  "props0 = \<lparr>show_flag = False, id_prop = None, appendTo = None, noBackdrop = False,
     noFocus = False, allowScroll = False, withDocumentClicks = True, noBackdropClicks = False,
     className = None, classNameBody = None, classNameBackdrop = None,
     classPrefixBody = None, classPrefixBackdrop = None,
     onCloseRequest_cb = ''onCloseRequest'', beforeOpen_cb = Some ''beforeOpen'',
     beforeClose_cb = Some ''beforeClose'', onOpen_cb = Some ''onOpen'',
     onClose_cb = Some ''onClose''\<rparr>"

definition world0 :: world where
  "world0 = \<lparr>nextId = 0, parents = Map.empty, styleCache = Map.empty,
     scrollDisabledBy = Map.empty, styleAttr = Map.empty,
     scrollStyle = (\<lambda>s. s @ ''overflow: hidden;''), listeners = {},
     activeElement = Some (Element 7 True), log = []\<rparr>"

definition modal0 :: modal where
  "modal0 = \<lparr>self = 0, ident = IdNum 1, parent = BODY, portal = Some (Element 1 True),
     prevFocused = None, animated = 0, stage = CLOSED, props = props0\<rparr>"

text \<open>One full cycle of a modal with a backdrop: shown, two enter signals, hidden, two exit signals.\<close>

definition full_cycle :: "event list" where
  "full_cycle = [Update True, Entered, Entered, Update False, Completed, Completed]"

text \<open>
  An instance with the generated id 1 that has just been shown (it holds the scroll lock of
  the root element), and a second instance with \<open>id="1"\<close> constructed after it.
\<close>

definition lockA :: config where
  "lockA = run [Update True] (constructor 0 (Some (Element 1 True)) props0 world0)"

definition otherB :: config where
  "otherB = constructor 1 (Some (Element 2 True)) (props0\<lparr>id_prop := Some ''1''\<rparr>) (fst lockA)"

text \<open>
  An instance after one full cycle; then focus moves to another element, the props change
  to \<open>noFocus\<close>, and the instance runs a second cycle.
\<close>

definition closed_once :: config where
  "closed_once = run full_cycle (constructor 0 (Some (Element 1 True)) props0 world0)"

definition stale_cycle :: config where
  "stale_cycle =
     run full_cycle ((fst closed_once)\<lparr>activeElement := Some (Element 9 True)\<rparr>,
                     (snd closed_once)\<lparr>props := (props (snd closed_once))\<lparr>noFocus := True\<rparr>\<rparr>)"

text \<open>
  Two instances under \<open>document.body\<close>: \<open>A\<close> opens, \<open>B\<close> opens, \<open>A\<close> is hidden and its
  exit animations complete, then \<open>A\<close> is unmounted.
\<close>

definition a_open :: config where
  "a_open = run [Update True, Entered, Entered]
              (constructor 0 (Some (Element 1 True)) props0 world0)"

definition b_open :: config where
  "b_open = run [Update True, Entered, Entered]
              (constructor 1 (Some (Element 2 True)) props0 (fst a_open))"

definition a_closed :: config where
  "a_closed = run [Update False, Completed, Completed] (fst b_open, snd a_open)"

definition a_unmounted :: config where
  "a_unmounted = componentWillUnmount a_closed"

text \<open>An instance right after the show update, before any enter signal.\<close>

definition just_shown :: config where
  "just_shown = run [Update True] (constructor 0 (Some (Element 1 True)) props0 world0)"

text \<open>An instance constructed with \<open>show\<close> true, before any signal.\<close>

definition just_mounted :: config where
  "just_mounted = constructor 0 (Some (Element 1 True)) (props0\<lparr>show_flag := True\<rparr>) world0"

text \<open>
  A modal with \<open>withDocumentClicks\<close> is opened, re-rendered without it while open, hidden,
  and its exit animations complete.
\<close>

definition clicks_switched_off :: config where
  "clicks_switched_off =
     run [Update True, Entered, Entered,
          Render (props0\<lparr>show_flag := True, withDocumentClicks := False\<rparr>),
          Update False, Completed, Completed]
       (constructor 0 (Some (Element 1 True)) props0 world0)"

section \<open>Effect of each method, field by field\<close>

lemma transitions_append: "transitions r (xs @ ys) = transitions r xs @ transitions r ys"
  by (induction r xs rule: transitions.induct) simp_all

lemma snd_register [simp]: "snd (register c) = snd c"
  by (cases c) (simp add: register_def split: option.splits)

lemma snd_unregister [simp]: "snd (unregister c) = snd c"
  by (cases c) (simp add: unregister_def Let_def split: option.splits)

lemma snd_addDocEvents [simp]: "snd (addDocEvents c) = snd c"
  by (cases c) (simp add: addDocEvents_def Let_def)

lemma snd_removeDocEvents [simp]: "snd (removeDocEvents c) = snd c"
  by (cases c) (simp add: removeDocEvents_def Let_def)

lemma snd_storeFocus [simp]:
  "snd (storeFocus c) = (snd c)\<lparr>prevFocused := activeElement (fst c)\<rparr>"
  by (cases c) (simp add: storeFocus_def)

lemma snd_restoreFocus [simp]: "snd (restoreFocus c) = snd c"
  by (cases c) (simp add: restoreFocus_def split: option.splits)

lemma snd_restoreScroll [simp]: "snd (restoreScroll c) = snd c"
  by (cases c) (simp add: restoreScroll_def Let_def)

lemma snd_disableScroll [simp]: "snd (disableScroll c) = snd c"
  by (cases c) (simp add: disableScroll_def split: prod.splits)

lemma register_frame [simp]:
  "nextId (fst (register c)) = nextId (fst c)"
  "styleCache (fst (register c)) = styleCache (fst c)"
  "scrollDisabledBy (fst (register c)) = scrollDisabledBy (fst c)"
  "styleAttr (fst (register c)) = styleAttr (fst c)"
  "scrollStyle (fst (register c)) = scrollStyle (fst c)"
  "listeners (fst (register c)) = listeners (fst c)"
  "activeElement (fst (register c)) = activeElement (fst c)"
  "log (fst (register c)) = log (fst c)"
  by (cases c; simp add: register_def split: option.splits)+

lemma unregister_frame [simp]:
  "nextId (fst (unregister c)) = nextId (fst c)"
  "styleCache (fst (unregister c)) = styleCache (fst c)"
  "scrollDisabledBy (fst (unregister c)) = scrollDisabledBy (fst c)"
  "styleAttr (fst (unregister c)) = styleAttr (fst c)"
  "scrollStyle (fst (unregister c)) = scrollStyle (fst c)"
  "listeners (fst (unregister c)) = listeners (fst c)"
  "activeElement (fst (unregister c)) = activeElement (fst c)"
  "log (fst (unregister c)) = log (fst c)"
  by (cases c; simp add: unregister_def Let_def split: option.splits)+

lemma addDocEvents_frame [simp]:
  "nextId (fst (addDocEvents c)) = nextId (fst c)"
  "parents (fst (addDocEvents c)) = parents (fst c)"
  "styleCache (fst (addDocEvents c)) = styleCache (fst c)"
  "scrollDisabledBy (fst (addDocEvents c)) = scrollDisabledBy (fst c)"
  "styleAttr (fst (addDocEvents c)) = styleAttr (fst c)"
  "scrollStyle (fst (addDocEvents c)) = scrollStyle (fst c)"
  "activeElement (fst (addDocEvents c)) = activeElement (fst c)"
  "log (fst (addDocEvents c)) = log (fst c)"
  by (cases c; simp add: addDocEvents_def Let_def split: option.splits)+

lemma removeDocEvents_frame [simp]:
  "nextId (fst (removeDocEvents c)) = nextId (fst c)"
  "parents (fst (removeDocEvents c)) = parents (fst c)"
  "styleCache (fst (removeDocEvents c)) = styleCache (fst c)"
  "scrollDisabledBy (fst (removeDocEvents c)) = scrollDisabledBy (fst c)"
  "styleAttr (fst (removeDocEvents c)) = styleAttr (fst c)"
  "scrollStyle (fst (removeDocEvents c)) = scrollStyle (fst c)"
  "activeElement (fst (removeDocEvents c)) = activeElement (fst c)"
  "log (fst (removeDocEvents c)) = log (fst c)"
  by (cases c; simp add: removeDocEvents_def Let_def split: option.splits)+

lemma storeFocus_frame [simp]:
  "nextId (fst (storeFocus c)) = nextId (fst c)"
  "parents (fst (storeFocus c)) = parents (fst c)"
  "styleCache (fst (storeFocus c)) = styleCache (fst c)"
  "scrollDisabledBy (fst (storeFocus c)) = scrollDisabledBy (fst c)"
  "styleAttr (fst (storeFocus c)) = styleAttr (fst c)"
  "scrollStyle (fst (storeFocus c)) = scrollStyle (fst c)"
  "listeners (fst (storeFocus c)) = listeners (fst c)"
  "log (fst (storeFocus c)) = log (fst c)"
  by (cases c; simp add: storeFocus_def focus_def split: option.splits)+

lemma restoreFocus_frame [simp]:
  "nextId (fst (restoreFocus c)) = nextId (fst c)"
  "parents (fst (restoreFocus c)) = parents (fst c)"
  "styleCache (fst (restoreFocus c)) = styleCache (fst c)"
  "scrollDisabledBy (fst (restoreFocus c)) = scrollDisabledBy (fst c)"
  "styleAttr (fst (restoreFocus c)) = styleAttr (fst c)"
  "scrollStyle (fst (restoreFocus c)) = scrollStyle (fst c)"
  "listeners (fst (restoreFocus c)) = listeners (fst c)"
  "log (fst (restoreFocus c)) = log (fst c)"
  by (cases c; simp add: restoreFocus_def focus_def split: option.splits)+

lemma disableScroll_frame [simp]:
  "nextId (fst (disableScroll c)) = nextId (fst c)"
  "parents (fst (disableScroll c)) = parents (fst c)"
  "scrollStyle (fst (disableScroll c)) = scrollStyle (fst c)"
  "listeners (fst (disableScroll c)) = listeners (fst c)"
  "activeElement (fst (disableScroll c)) = activeElement (fst c)"
  "log (fst (disableScroll c)) = log (fst c)"
  by (cases c; simp add: disableScroll_def lib_disableScroll_def Let_def split: option.splits)+

lemma restoreScroll_frame [simp]:
  "nextId (fst (restoreScroll c)) = nextId (fst c)"
  "parents (fst (restoreScroll c)) = parents (fst c)"
  "scrollStyle (fst (restoreScroll c)) = scrollStyle (fst c)"
  "listeners (fst (restoreScroll c)) = listeners (fst c)"
  "activeElement (fst (restoreScroll c)) = activeElement (fst c)"
  "log (fst (restoreScroll c)) = log (fst c)"
  by (cases c; simp add: restoreScroll_def Let_def split: option.splits)+

lemma parents_register [simp]:
  "parents (fst (register c)) =
     (parents (fst c))(parent (snd c) \<mapsto>
        (case parents (fst c) (parent (snd c)) of None \<Rightarrow> [ident (snd c)]
         | Some ids \<Rightarrow> ident (snd c) # ids))"
  by (cases c) (simp add: register_def split: option.splits)

lemma parents_unregister:
  "parents (fst (unregister c)) =
     (case parents (fst c) (parent (snd c)) of
        None \<Rightarrow> parents (fst c)
      | Some ids \<Rightarrow>
          (if splice1 ids (indexOf ids (ident (snd c))) = []
           then (parents (fst c))(parent (snd c) := None)
           else (parents (fst c))(parent (snd c) \<mapsto> splice1 ids (indexOf ids (ident (snd c))))))"
  by (cases c) (simp add: unregister_def Let_def split: option.splits)

lemma listeners_addDocEvents [simp]:
  "listeners (fst (addDocEvents c)) =
     insert (''keydown'', OnKeydown (self (snd c)))
       (if withDocumentClicks (props (snd c))
        then insert (''click'', OnDocClick (self (snd c))) (listeners (fst c))
        else listeners (fst c))"
  by (cases c) (simp add: addDocEvents_def Let_def)

lemma listeners_removeDocEvents [simp]:
  "listeners (fst (removeDocEvents c)) =
     (if withDocumentClicks (props (snd c))
      then listeners (fst c) - {(''click'', OnDocClick (self (snd c)))}
      else listeners (fst c)) - {(''keydown'', OnKeydown (self (snd c)))}"
  by (cases c) (simp add: removeDocEvents_def Let_def)

lemma activeElement_storeFocus [simp]:
  "activeElement (fst (storeFocus c)) =
     (case portal (snd c) of Some e \<Rightarrow> Some e | None \<Rightarrow> activeElement (fst c))"
  by (cases c) (simp add: storeFocus_def focus_def split: option.splits)

lemma activeElement_restoreFocus [simp]:
  "activeElement (fst (restoreFocus c)) =
     (case prevFocused (snd c) of
        Some e \<Rightarrow> if has_focus e then Some e else activeElement (fst c)
      | None \<Rightarrow> activeElement (fst c))"
  by (cases c) (simp add: restoreFocus_def focus_def split: option.splits)

lemma call_frame [simp]:
  "nextId (call cb w) = nextId w"
  "parents (call cb w) = parents w"
  "styleCache (call cb w) = styleCache w"
  "scrollDisabledBy (call cb w) = scrollDisabledBy w"
  "styleAttr (call cb w) = styleAttr w"
  "scrollStyle (call cb w) = scrollStyle w"
  "listeners (call cb w) = listeners w"
  "activeElement (call cb w) = activeElement w"
  by (simp_all add: call_def split: option.splits)

lemma log_call [simp]:
  "log (call cb w) = log w @ (case cb of None \<Rightarrow> [] | Some l \<Rightarrow> [Called l])"
  by (simp add: call_def split: option.splits)

lemma snd_onClose [simp]: "snd (onClose c) = snd c"
  by (simp add: onClose_def Let_def)

lemma snd_onOpen:
  "snd (onOpen c) = (if noFocus (props (snd c)) then snd c
                     else (snd c)\<lparr>prevFocused := activeElement (fst c)\<rparr>)"
  by (simp add: onOpen_def Let_def)

lemma log_onOpen:
  "log (fst (onOpen c)) =
     log (fst c) @ (case onOpen_cb (props (snd c)) of None \<Rightarrow> [] | Some l \<Rightarrow> [Called l])"
  by (simp add: onOpen_def Let_def)

lemma log_onClose:
  "log (fst (onClose c)) =
     log (fst c) @ (case onClose_cb (props (snd c)) of None \<Rightarrow> [] | Some l \<Rightarrow> [Called l])"
  by (simp add: onClose_def Let_def)

lemma transitions_cb: "transitions r (case cb of None \<Rightarrow> [] | Some l \<Rightarrow> [Called l]) = []"
  by (cases cb) simp_all

lemma snd_beforeOpen [simp]: "snd (beforeOpen c) = snd c"
  by (cases c) (simp add: beforeOpen_def)

lemma snd_beforeClose [simp]: "snd (beforeClose c) = snd c"
  by (cases c) (simp add: beforeClose_def)

lemma snd_componentDidUpdate:
  "snd (componentDidUpdate c) =
     (if show_flag (props (snd c)) \<and> stage (snd c) = CLOSED then (snd c)\<lparr>stage := OPENING\<rparr>
      else if \<not> show_flag (props (snd c)) \<and> stage (snd c) = OPENED
           then (snd c)\<lparr>stage := CLOSING\<rparr>
      else snd c)"
  by (cases c) (auto simp: componentDidUpdate_def setState_def Let_def)

lemma snd_onOpening:
  "snd (onOpening c) =
     (if animated (snd c) + 1 = expectedCount (snd c)
      then (if noFocus (props (snd c))
            then (snd c)\<lparr>animated := animated (snd c) + 1, stage := OPENED\<rparr>
            else (snd c)\<lparr>animated := animated (snd c) + 1, stage := OPENED,
                          prevFocused := activeElement (fst c)\<rparr>)
      else (snd c)\<lparr>animated := animated (snd c) + 1\<rparr>)"
  by (cases c) (simp add: onOpening_def Let_def setState_def snd_onOpen expectedCount_def)

lemma snd_onClosing:
  "snd (onClosing c) =
     (if animated (snd c) - 1 = 0
      then (snd c)\<lparr>animated := animated (snd c) - 1, stage := CLOSED\<rparr>
      else (snd c)\<lparr>animated := animated (snd c) - 1\<rparr>)"
  by (cases c) (simp add: onClosing_def Let_def setState_def)

lemma transitions_onOpening:
  "transitions (self (snd c)) (log (fst (onOpening c))) =
     transitions (self (snd c)) (log (fst c)) @
       (if animated (snd c) + 1 = expectedCount (snd c) then [OPENED] else [])"
  by (cases c) (simp add: onOpening_def Let_def setState_def log_onOpen transitions_append
      transitions_cb expectedCount_def)

lemma transitions_onClosing:
  "transitions (self (snd c)) (log (fst (onClosing c))) =
     transitions (self (snd c)) (log (fst c)) @
       (if animated (snd c) - 1 = 0 then [CLOSED] else [])"
  by (cases c) (simp add: onClosing_def Let_def setState_def log_onClose transitions_append
      transitions_cb)

lemma snd_constructor:
  "snd (constructor r el p w) =
     \<lparr>self = r,
      ident = (case id_prop p of Some s \<Rightarrow> if s \<noteq> [] then IdStr s else IdNum (nextId w + 1)
               | None \<Rightarrow> IdNum (nextId w + 1)),
      parent = (case appendTo p of Some c \<Rightarrow> c | None \<Rightarrow> BODY),
      portal = el, prevFocused = None, animated = 0,
      stage = (if show_flag p then OPENED else CLOSED), props = p\<rparr>"
  by (simp add: constructor_def Let_def split: option.splits)

lemma fst_constructor:
  "fst (constructor r el p w) =
     (case id_prop p of Some s \<Rightarrow> if s \<noteq> [] then w else w\<lparr>nextId := nextId w + 1\<rparr>
      | None \<Rightarrow> w\<lparr>nextId := nextId w + 1\<rparr>)"
  by (simp add: constructor_def Let_def split: option.splits)

lemma onOpen_frame [simp]:
  "nextId (fst (onOpen c)) = nextId (fst c)"
  "styleCache (fst (onOpen c)) = styleCache (fst c)"
  "scrollDisabledBy (fst (onOpen c)) = scrollDisabledBy (fst c)"
  "styleAttr (fst (onOpen c)) = styleAttr (fst c)"
  "scrollStyle (fst (onOpen c)) = scrollStyle (fst c)"
  by (simp_all add: onOpen_def Let_def)

lemma parents_onOpen:
  "parents (fst (onOpen c)) =
     (parents (fst c))(parent (snd c) \<mapsto>
        (case parents (fst c) (parent (snd c)) of None \<Rightarrow> [ident (snd c)]
         | Some ids \<Rightarrow> ident (snd c) # ids))"
  by (simp add: onOpen_def Let_def)

lemma listeners_onOpen:
  "listeners (fst (onOpen c)) =
     insert (''keydown'', OnKeydown (self (snd c)))
       (if withDocumentClicks (props (snd c))
        then insert (''click'', OnDocClick (self (snd c))) (listeners (fst c))
        else listeners (fst c))"
  by (simp add: onOpen_def Let_def)

lemma activeElement_onOpen:
  "activeElement (fst (onOpen c)) =
     (if noFocus (props (snd c)) then activeElement (fst c)
      else (case portal (snd c) of Some e \<Rightarrow> Some e | None \<Rightarrow> activeElement (fst c)))"
  by (simp add: onOpen_def Let_def split: option.splits)

lemma onClose_frame [simp]:
  "nextId (fst (onClose c)) = nextId (fst c)"
  "scrollStyle (fst (onClose c)) = scrollStyle (fst c)"
  by (simp_all add: onClose_def Let_def)

lemma parents_onClose: "parents (fst (onClose c)) = parents (fst (unregister c))"
  by (simp add: onClose_def Let_def)

lemma listeners_onClose:
  "listeners (fst (onClose c)) =
     (if withDocumentClicks (props (snd c))
      then listeners (fst c) - {(''click'', OnDocClick (self (snd c)))}
      else listeners (fst c)) - {(''keydown'', OnKeydown (self (snd c)))}"
  by (simp add: onClose_def Let_def)

lemma activeElement_onClose:
  "activeElement (fst (onClose c)) =
     (case prevFocused (snd c) of
        Some e \<Rightarrow> if has_focus e then Some e else activeElement (fst c)
      | None \<Rightarrow> activeElement (fst c))"
  by (simp add: onClose_def Let_def split: option.splits)

lemma fst_onOpening:
  "fst (onOpening c) =
     (if animated (snd c) + 1 = expectedCount (snd c)
      then fst (onOpen ((fst c)\<lparr>log := log (fst c) @ [SetState (self (snd c)) OPENED]\<rparr>,
                        (snd c)\<lparr>animated := animated (snd c) + 1, stage := OPENED\<rparr>))
      else fst c)"
  by (cases c) (simp add: onOpening_def Let_def setState_def expectedCount_def)

lemma fst_onClosing:
  "fst (onClosing c) =
     (if animated (snd c) - 1 = 0
      then fst (onClose ((fst c)\<lparr>log := log (fst c) @ [SetState (self (snd c)) CLOSED]\<rparr>,
                         (snd c)\<lparr>animated := animated (snd c) - 1, stage := CLOSED\<rparr>))
      else fst c)"
  by (cases c) (simp add: onClosing_def Let_def setState_def)

lemma beforeOpen_frame [simp]:
  "nextId (fst (beforeOpen c)) = nextId (fst c)"
  "parents (fst (beforeOpen c)) = parents (fst c)"
  "scrollStyle (fst (beforeOpen c)) = scrollStyle (fst c)"
  "listeners (fst (beforeOpen c)) = listeners (fst c)"
  "activeElement (fst (beforeOpen c)) = activeElement (fst c)"
  by (cases c; simp add: beforeOpen_def)+

lemma log_beforeOpen:
  "log (fst (beforeOpen c)) =
     log (fst c) @ (case beforeOpen_cb (props (snd c)) of None \<Rightarrow> [] | Some l \<Rightarrow> [Called l])"
  by (cases c) (simp add: beforeOpen_def)

lemma fst_beforeClose:
  "fst (beforeClose c) = call (beforeClose_cb (props (snd c))) (fst c)"
  by (cases c) (simp add: beforeClose_def)

lemma fst_componentDidUpdate:
  "fst (componentDidUpdate c) =
     (if show_flag (props (snd c)) \<and> stage (snd c) = CLOSED
      then fst (beforeOpen ((fst c)\<lparr>log := log (fst c) @ [SetState (self (snd c)) OPENING]\<rparr>,
                            (snd c)\<lparr>stage := OPENING\<rparr>))
      else if \<not> show_flag (props (snd c)) \<and> stage (snd c) = OPENED
      then fst (beforeClose ((fst c)\<lparr>log := log (fst c) @ [SetState (self (snd c)) CLOSING]\<rparr>,
                             (snd c)\<lparr>stage := CLOSING\<rparr>))
      else fst c)"
  by (cases c) (auto simp: componentDidUpdate_def setState_def Let_def)

lemma listeners_componentDidUpdate [simp]:
  "listeners (fst (componentDidUpdate c)) = listeners (fst c)"
  by (simp add: fst_componentDidUpdate fst_beforeClose)

lemma transitions_componentDidUpdate:
  "transitions (self (snd c)) (log (fst (componentDidUpdate c))) =
     transitions (self (snd c)) (log (fst c)) @
       (if show_flag (props (snd c)) \<and> stage (snd c) = CLOSED then [OPENING]
        else if \<not> show_flag (props (snd c)) \<and> stage (snd c) = OPENED then [CLOSING]
        else [])"
  by (simp add: fst_componentDidUpdate fst_beforeClose log_beforeOpen transitions_append
      transitions_cb)

lemma digits_1: "digits (Suc 0) = ''1''"
  by code_simp

lemma digits_2: "digits 2 = ''2''"
  by code_simp

section \<open>Preservation along a run\<close>

lemma self_step: "self (snd (step e c)) = self (snd c)"
  by (cases e) (simp_all add: snd_componentDidUpdate snd_onOpening snd_onClosing)

lemma self_run: "self (snd (run evs c)) = self (snd c)"
  by (induction evs arbitrary: c) (simp_all add: self_step del: step.simps)

lemma listeners_onOpening:
  "listeners (fst (onOpening c)) =
     (if animated (snd c) + 1 = expectedCount (snd c)
      then insert (''keydown'', OnKeydown (self (snd c)))
             (if withDocumentClicks (props (snd c))
              then insert (''click'', OnDocClick (self (snd c))) (listeners (fst c))
              else listeners (fst c))
      else listeners (fst c))"
  by (simp add: fst_onOpening listeners_onOpen)

lemma listeners_onClosing:
  "listeners (fst (onClosing c)) =
     (if animated (snd c) - 1 = 0
      then (if withDocumentClicks (props (snd c))
            then listeners (fst c) - {(''click'', OnDocClick (self (snd c)))}
            else listeners (fst c)) - {(''keydown'', OnKeydown (self (snd c)))}
      else listeners (fst c))"
  by (simp add: fst_onClosing listeners_onClose)

lemma keydown_wired_step: "keydown_wired c \<Longrightarrow> keydown_wired (step e c)"
proof (cases e)
  case (Update s)
  assume "keydown_wired c"
  then show ?thesis
    using Update
    by (cases "stage (snd c)")
      (auto simp: keydown_wired_def stage_on_def snd_componentDidUpdate)
next
  case (Render p)
  assume "keydown_wired c"
  then show ?thesis
    using Render
    by (cases "stage (snd c)")
      (auto simp: keydown_wired_def stage_on_def snd_componentDidUpdate)
next
  case Entered
  assume "keydown_wired c"
  then show ?thesis
    using Entered
    by (auto simp: keydown_wired_def stage_on_def snd_onOpening listeners_onOpening)
next
  case Completed
  assume "keydown_wired c"
  then show ?thesis
    using Completed
    by (auto simp: keydown_wired_def stage_on_def snd_onClosing listeners_onClosing)
qed

lemma keydown_wired_run: "keydown_wired c \<Longrightarrow> keydown_wired (run evs c)"
  by (induction evs arbitrary: c) (simp_all add: keydown_wired_step del: step.simps)

lemma click_wired_step: "click_wired c \<Longrightarrow> steady e c \<Longrightarrow> click_wired (step e c)"
proof (cases e)
  case (Update s)
  assume "click_wired c"
  then show ?thesis
    using Update
    by (cases "stage (snd c)")
      (auto simp: click_wired_def stage_on_def snd_componentDidUpdate)
next
  case (Render p)
  assume "click_wired c" "steady e c"
  then show ?thesis
    using Render
    by (cases "stage (snd c)")
      (auto simp: click_wired_def stage_on_def snd_componentDidUpdate)
next
  case Entered
  assume "click_wired c"
  then show ?thesis
    using Entered
    by (auto simp: click_wired_def stage_on_def snd_onOpening listeners_onOpening)
next
  case Completed
  assume "click_wired c"
  then show ?thesis
    using Completed
    by (auto simp: click_wired_def stage_on_def snd_onClosing listeners_onClosing)
qed

lemma click_wired_run: "click_wired c \<Longrightarrow> clicks_steady evs c \<Longrightarrow> click_wired (run evs c)"
  by (induction evs arbitrary: c) (simp_all add: click_wired_step del: step.simps)

lemma wired_constructor:
  "\<not> show_flag p \<Longrightarrow> (''keydown'', OnKeydown r) \<notin> listeners w \<Longrightarrow>
     keydown_wired (constructor r el p w)"
  "\<not> show_flag p \<Longrightarrow> (''click'', OnDocClick r) \<notin> listeners w \<Longrightarrow>
     click_wired (constructor r el p w)"
  by (simp_all add: keydown_wired_def click_wired_def stage_on_def snd_constructor
      fst_constructor split: option.splits)

text \<open>A hidden instance is opened by the show update and its enter signals, and closed
  by the hide update and its exit signals.\<close>

lemma snd_open_cycle:
  "\<not> show_flag p \<Longrightarrow>
   stage (snd (run (Update True # (if noBackdrop p then [Entered] else [Entered, Entered]))
      (constructor r el p w))) = OPENED"
  by (simp add: snd_onOpening snd_componentDidUpdate snd_constructor expectedCount_def)

lemma snd_close_cycle:
  "\<not> show_flag p \<Longrightarrow>
   stage (snd (run (Update True # (if noBackdrop p
                      then [Entered, Update False, Completed]
                      else [Entered, Entered, Update False, Completed, Completed]))
      (constructor r el p w))) = CLOSED"
  by (simp add: snd_onOpening snd_onClosing snd_componentDidUpdate snd_constructor
      expectedCount_def)

text \<open>An instance that is \<open>CLOSING\<close> with the counter at 0 or below stays there.\<close>

lemma componentDidUpdate_CLOSING:
  "stage (snd c) = CLOSING \<Longrightarrow> componentDidUpdate c = c"
  by (cases c) (simp add: componentDidUpdate_def Let_def)

lemma stuck_step:
  "stage (snd c) = CLOSING \<Longrightarrow> animated (snd c) \<le> 0 \<Longrightarrow> in_phase e c \<Longrightarrow>
   stage (snd (step e c)) = CLOSING \<and>
   animated (snd (step e c)) = animated (snd c) - (if e = Completed then 1 else 0) \<and>
   self (snd (step e c)) = self (snd c) \<and>
   log (fst (step e c)) = log (fst c)"
  by (cases e) (simp_all add: componentDidUpdate_CLOSING snd_onClosing fst_onClosing)

lemma stuck_run:
  "stage (snd c) = CLOSING \<Longrightarrow> animated (snd c) \<le> 0 \<Longrightarrow> conforms evs c \<Longrightarrow>
   stage (snd (run evs c)) = CLOSING \<and>
   animated (snd (run evs c)) = animated (snd c) - int (count_list evs Completed) \<and>
   log (fst (run evs c)) = log (fst c)"
proof (induction evs arbitrary: c)
  case Nil
  then show ?case by simp
next
  case (Cons e es)
  have st: "stage (snd (step e c)) = CLOSING"
    and an: "animated (snd (step e c)) = animated (snd c) - (if e = Completed then 1 else 0)"
    and lg: "log (fst (step e c)) = log (fst c)"
    using stuck_step [of c e] Cons.prems by simp_all
  have le: "animated (snd (step e c)) \<le> 0"
    using an Cons.prems(2) by simp
  have cf: "conforms es (step e c)"
    using Cons.prems(3) by simp
  show ?case
    using Cons.IH [OF st le cf] an lg by (simp del: step.simps)
qed

section \<open>Stage machine\<close>

text \<open>
  Claim C1. On every update observation of the show flag: with \<open>show\<close> true and the stage
  \<open>CLOSED\<close> the stage becomes \<open>OPENING\<close>; with \<open>show\<close> false and the stage \<open>OPENED\<close> it
  becomes \<open>CLOSING\<close>; for every other combination \<open>componentDidUpdate\<close> changes nothing at
  all, in particular while the stage is \<open>OPENING\<close> or \<open>CLOSING\<close>.
\<close>

theorem componentDidUpdate_rule:
  "(show_flag (props i) \<and> stage i = CLOSED \<longrightarrow>
      stage (snd (componentDidUpdate (w, i))) = OPENING) \<and>
   (\<not> show_flag (props i) \<and> stage i = OPENED \<longrightarrow>
      stage (snd (componentDidUpdate (w, i))) = CLOSING) \<and>
   (\<not> (show_flag (props i) \<and> stage i = CLOSED) \<and>
    \<not> (\<not> show_flag (props i) \<and> stage i = OPENED) \<longrightarrow>
      componentDidUpdate (w, i) = (w, i))"
  by (simp add: snd_componentDidUpdate) (auto simp: componentDidUpdate_def Let_def)

text \<open>
  The rule at a hidden closed instance that is shown, an opened one that is hidden, and
  two instances in the middle of a transition.
\<close>

theorem componentDidUpdate_rule_witness:
  "stage (snd (componentDidUpdate
      (world0, modal0\<lparr>props := props0\<lparr>show_flag := True\<rparr>\<rparr>))) = OPENING \<and>
   stage (snd (componentDidUpdate (world0, modal0\<lparr>stage := OPENED\<rparr>))) = CLOSING \<and>
   componentDidUpdate (world0, modal0\<lparr>stage := OPENING\<rparr>) =
     (world0, modal0\<lparr>stage := OPENING\<rparr>) \<and>
   componentDidUpdate (world0, modal0\<lparr>stage := CLOSING, props := props0\<lparr>show_flag := True\<rparr>\<rparr>) =
     (world0, modal0\<lparr>stage := CLOSING, props := props0\<lparr>show_flag := True\<rparr>\<rparr>)"
  using componentDidUpdate_rule [where w = world0
      and i = "modal0\<lparr>props := props0\<lparr>show_flag := True\<rparr>\<rparr>"]
    componentDidUpdate_rule [where w = world0 and i = "modal0\<lparr>stage := OPENED\<rparr>"]
    componentDidUpdate_rule [where w = world0 and i = "modal0\<lparr>stage := OPENING\<rparr>"]
    componentDidUpdate_rule [where w = world0
      and i = "modal0\<lparr>stage := CLOSING, props := props0\<lparr>show_flag := True\<rparr>\<rparr>"]
  by (simp add: modal0_def props0_def)

text \<open>
  Claim C2. Each \<open>onOpening\<close> signal adds one to the counter and sets the stage to \<open>OPENED\<close>
  exactly when the counter reaches the expected count, 1 with \<open>noBackdrop\<close> and 2 without;
  each \<open>onClosing\<close> signal subtracts one and sets the stage to \<open>CLOSED\<close> exactly when the
  counter reaches 0. An instance constructed hidden with \<open>noBackdrop\<close> is \<open>OPENING\<close> after
  the show update and \<open>OPENED\<close> after one signal.
\<close>

theorem rendezvous_steps:
  "animated (snd (onOpening (w, i))) = animated i + 1 \<and>
   expectedCount i = (if noBackdrop (props i) then 1 else 2) \<and>
   stage (snd (onOpening (w, i))) =
     (if animated i + 1 = expectedCount i then OPENED else stage i) \<and>
   transitions (self i) (log (fst (onOpening (w, i)))) =
     transitions (self i) (log w) @ (if animated i + 1 = expectedCount i then [OPENED] else []) \<and>
   animated (snd (onClosing (w, i))) = animated i - 1 \<and>
   stage (snd (onClosing (w, i))) = (if animated i - 1 = 0 then CLOSED else stage i) \<and>
   transitions (self i) (log (fst (onClosing (w, i)))) =
     transitions (self i) (log w) @ (if animated i - 1 = 0 then [CLOSED] else []) \<and>
   (noBackdrop p \<and> \<not> show_flag p \<longrightarrow>
      stage (snd (run [Update True] (constructor r el p w0))) = OPENING \<and>
      stage (snd (run [Update True, Entered] (constructor r el p w0))) = OPENED)"
proof -
  have a: "animated (snd (onOpening (w, i))) = animated i + 1"
    and b: "stage (snd (onOpening (w, i))) =
              (if animated i + 1 = expectedCount i then OPENED else stage i)"
    by (simp_all add: snd_onOpening)
  have c: "animated (snd (onClosing (w, i))) = animated i - 1"
    and d: "stage (snd (onClosing (w, i))) = (if animated i - 1 = 0 then CLOSED else stage i)"
    by (simp_all add: snd_onClosing)
  have e: "expectedCount i = (if noBackdrop (props i) then 1 else 2)"
    by (simp add: expectedCount_def)
  have f: "stage (snd (run [Update True] (constructor r el p w0))) = OPENING \<and>
      stage (snd (run [Update True, Entered] (constructor r el p w0))) = OPENED"
    if "noBackdrop p" "\<not> show_flag p"
    using that
    by (simp add: snd_onOpening snd_componentDidUpdate snd_constructor expectedCount_def)
  show ?thesis
    using a b c d e f transitions_onOpening [of "(w, i)"] transitions_onClosing [of "(w, i)"]
    by simp
qed

text \<open>
  The second enter signal of a modal with a backdrop opens it and the first does not; the
  last exit signal closes it; with \<open>noBackdrop\<close> one enter signal opens it.
\<close>

theorem rendezvous_steps_witness:
  "stage (snd (onOpening (world0, modal0\<lparr>stage := OPENING, animated := 1\<rparr>))) = OPENED \<and>
   stage (snd (onOpening (world0, modal0\<lparr>stage := OPENING\<rparr>))) = OPENING \<and>
   stage (snd (onClosing (world0, modal0\<lparr>stage := CLOSING, animated := 1\<rparr>))) = CLOSED \<and>
   stage (snd (onClosing (world0, modal0\<lparr>stage := CLOSING, animated := 2\<rparr>))) = CLOSING \<and>
   stage (snd (run [Update True]
      (constructor 0 None (props0\<lparr>noBackdrop := True\<rparr>) world0))) = OPENING \<and>
   stage (snd (run [Update True, Entered]
      (constructor 0 None (props0\<lparr>noBackdrop := True\<rparr>) world0))) = OPENED"
  using rendezvous_steps [where w = world0 and i = "modal0\<lparr>stage := OPENING, animated := 1\<rparr>"
      and p = "props0\<lparr>noBackdrop := True\<rparr>" and r = 0 and el = None and ?w0.0 = world0]
    rendezvous_steps [where w = world0 and i = "modal0\<lparr>stage := OPENING\<rparr>"
      and p = "props0\<lparr>noBackdrop := True\<rparr>" and r = 0 and el = None and ?w0.0 = world0]
    rendezvous_steps [where w = world0 and i = "modal0\<lparr>stage := CLOSING, animated := 1\<rparr>"
      and p = "props0\<lparr>noBackdrop := True\<rparr>" and r = 0 and el = None and ?w0.0 = world0]
    rendezvous_steps [where w = world0 and i = "modal0\<lparr>stage := CLOSING, animated := 2\<rparr>"
      and p = "props0\<lparr>noBackdrop := True\<rparr>" and r = 0 and el = None and ?w0.0 = world0]
  by (simp add: modal0_def props0_def expectedCount_def)

text \<open>
  Claim C4. In every \<open>CLOSING\<close> cycle the stage must be set to \<open>CLOSED\<close> exactly once, when
  the counter reaches 0. The code does not do so for a modal shown on mount that is hidden
  before its appear animations have signalled: the constructor sets the stage \<open>OPENED\<close> with
  the counter at 0, the hide update sets \<open>CLOSING\<close>, and every exit signal takes the counter
  further below 0. Whatever in-phase events follow (re-renders with any props, exit
  signals), the stage stays \<open>CLOSING\<close>, the counter is minus the number of exit signals, and
  the only stage the instance has set is \<open>CLOSING\<close>: \<open>CLOSED\<close> is never set.
\<close>

theorem hidden_before_entered_stuck:
  "show_flag p \<Longrightarrow> conforms evs (step (Update False) (constructor r el p w)) \<Longrightarrow>
   (let c = run (Update False # evs) (constructor r el p w)
    in stage (snd c) = CLOSING \<and>
       animated (snd c) = - int (count_list evs Completed) \<and>
       transitions r (log (fst c)) = transitions r (log w) @ [CLOSING])"
proof -
  assume sh: "show_flag p"
    and cf: "conforms evs (step (Update False) (constructor r el p w))"
  define c0 where "c0 = (fst (constructor r el p w),
    (snd (constructor r el p w))\<lparr>props := (props (snd (constructor r el p w)))\<lparr>show_flag := False\<rparr>\<rparr>)"
  define c1 where "c1 = step (Update False) (constructor r el p w)"
  have c1: "c1 = componentDidUpdate c0"
    by (simp add: c1_def c0_def)
  have s0: "stage (snd c0) = OPENED" "\<not> show_flag (props (snd c0))" "self (snd c0) = r"
    "animated (snd c0) = 0" "log (fst c0) = log w"
    using sh by (simp_all add: c0_def snd_constructor fst_constructor split: option.splits)
  have st: "stage (snd c1) = CLOSING" and an: "animated (snd c1) = 0"
    using s0 by (simp_all add: c1 snd_componentDidUpdate)
  have tr: "transitions r (log (fst c1)) = transitions r (log w) @ [CLOSING]"
    using transitions_componentDidUpdate [of c0] s0 by (simp add: c1)
  have "stage (snd (run evs c1)) = CLOSING \<and>
      animated (snd (run evs c1)) = animated (snd c1) - int (count_list evs Completed) \<and>
      log (fst (run evs c1)) = log (fst c1)"
    using st an cf by (intro stuck_run) (simp_all add: c1_def)
  then show ?thesis
    using an tr by (simp add: Let_def c1_def del: step.simps)
qed

text \<open>
  A modal with a backdrop, shown on mount, hidden at once: after its two exit signals the
  stage is \<open>CLOSING\<close> and the counter is -2.
\<close>

theorem hidden_before_entered_stuck_witness:
  "show_flag (props0\<lparr>show_flag := True\<rparr>) \<and>
   conforms [Completed, Completed] (step (Update False)
      (constructor 0 (Some (Element 1 True)) (props0\<lparr>show_flag := True\<rparr>) world0)) \<and>
   stage (snd (run [Update False, Completed, Completed]
      (constructor 0 (Some (Element 1 True)) (props0\<lparr>show_flag := True\<rparr>) world0))) = CLOSING \<and>
   animated (snd (run [Update False, Completed, Completed]
      (constructor 0 (Some (Element 1 True)) (props0\<lparr>show_flag := True\<rparr>) world0))) = - 2 \<and>
   transitions 0 (log (fst (run [Update False, Completed, Completed]
      (constructor 0 (Some (Element 1 True)) (props0\<lparr>show_flag := True\<rparr>) world0)))) = [CLOSING]"
proof -
  have h1: "show_flag (props0\<lparr>show_flag := True\<rparr>)"
    by simp
  have h2: "conforms [Completed, Completed] (step (Update False)
      (constructor 0 (Some (Element 1 True)) (props0\<lparr>show_flag := True\<rparr>) world0))"
    by code_simp
  have lg: "log world0 = []"
    by (simp add: world0_def)
  show ?thesis
    using hidden_before_entered_stuck [OF h1 h2] h1 h2 lg
    by (simp add: Let_def del: step.simps run.simps conforms.simps)
qed

text \<open>
  Claim C10. An instance constructed with \<open>show\<close> true starts in the stage \<open>OPENED\<close>, and
  \<open>componentDidUpdate\<close> does nothing to it: no stage is set, \<open>beforeOpen\<close> is not called and
  the scroll lock is not taken. Once the appear animations have signalled (one signal with
  \<open>noBackdrop\<close>, two without), the instance is registered at the front of its container's
  list, its document listeners are attached, focus is captured unless \<open>noFocus\<close> is set, and
  the log holds the \<open>OPENED\<close> state change and the \<open>onOpen\<close> callback only; the style
  attribute, the style cache and the lock owner of every container are as before.
\<close>

theorem shown_on_mount:
  "show_flag p \<longrightarrow>
     stage (snd (constructor r el p w)) = OPENED \<and>
     componentDidUpdate (constructor r el p w) = constructor r el p w \<and>
     (let c0 = constructor r el p w;
          c1 = run (if noBackdrop p then [Entered] else [Entered, Entered]) c0
      in stage (snd c1) = OPENED \<and>
         parents (fst c1) (parent (snd c0)) =
           Some (ident (snd c0) #
                 (case parents w (parent (snd c0)) of None \<Rightarrow> [] | Some ids \<Rightarrow> ids)) \<and>
         listeners (fst c1) =
           insert (''keydown'', OnKeydown r)
             (if withDocumentClicks p then insert (''click'', OnDocClick r) (listeners w)
              else listeners w) \<and>
         prevFocused (snd c1) = (if noFocus p then None else activeElement w) \<and>
         activeElement (fst c1) =
           (if noFocus p then activeElement w
            else (case el of Some e \<Rightarrow> Some e | None \<Rightarrow> activeElement w)) \<and>
         log (fst c1) =
           log w @ [SetState r OPENED] @
             (case onOpen_cb p of None \<Rightarrow> [] | Some l \<Rightarrow> [Called l]) \<and>
         styleAttr (fst c1) = styleAttr w \<and>
         styleCache (fst c1) = styleCache w \<and>
         scrollDisabledBy (fst c1) = scrollDisabledBy w)"
proof
  assume sh: "show_flag p"
  define c0 where "c0 = constructor r el p w"
  have s0: "snd c0 = \<lparr>self = r,
      ident = (case id_prop p of Some s \<Rightarrow> if s \<noteq> [] then IdStr s else IdNum (nextId w + 1)
               | None \<Rightarrow> IdNum (nextId w + 1)),
      parent = (case appendTo p of Some c \<Rightarrow> c | None \<Rightarrow> BODY),
      portal = el, prevFocused = None, animated = 0, stage = OPENED, props = p\<rparr>"
    using sh by (simp add: c0_def snd_constructor)
  have f0: "parents (fst c0) = parents w" "listeners (fst c0) = listeners w"
    "activeElement (fst c0) = activeElement w" "log (fst c0) = log w"
    "styleAttr (fst c0) = styleAttr w" "styleCache (fst c0) = styleCache w"
    "scrollDisabledBy (fst c0) = scrollDisabledBy w"
    by (simp_all add: c0_def fst_constructor split: option.splits)
  have noop: "componentDidUpdate c0 = c0"
    by (cases c0) (use s0 sh in \<open>auto simp: componentDidUpdate_def Let_def\<close>)
  have after: "(let c1 = run (if noBackdrop p then [Entered] else [Entered, Entered]) c0
      in stage (snd c1) = OPENED \<and>
         parents (fst c1) (parent (snd c0)) =
           Some (ident (snd c0) #
                 (case parents w (parent (snd c0)) of None \<Rightarrow> [] | Some ids \<Rightarrow> ids)) \<and>
         listeners (fst c1) =
           insert (''keydown'', OnKeydown r)
             (if withDocumentClicks p then insert (''click'', OnDocClick r) (listeners w)
              else listeners w) \<and>
         prevFocused (snd c1) = (if noFocus p then None else activeElement w) \<and>
         activeElement (fst c1) =
           (if noFocus p then activeElement w
            else (case el of Some e \<Rightarrow> Some e | None \<Rightarrow> activeElement w)) \<and>
         log (fst c1) =
           log w @ [SetState r OPENED] @
             (case onOpen_cb p of None \<Rightarrow> [] | Some l \<Rightarrow> [Called l]) \<and>
         styleAttr (fst c1) = styleAttr w \<and>
         styleCache (fst c1) = styleCache w \<and>
         scrollDisabledBy (fst c1) = scrollDisabledBy w)"
  proof (cases "noBackdrop p")
    case True
    then show ?thesis
      using s0 f0
      by (simp add: Let_def snd_onOpening fst_onOpening expectedCount_def parents_onOpen
          listeners_onOpen activeElement_onOpen log_onOpen split: option.splits)
  next
    case False
    then show ?thesis
      using s0 f0
      by (simp add: Let_def snd_onOpening fst_onOpening expectedCount_def parents_onOpen
          listeners_onOpen activeElement_onOpen log_onOpen split: option.splits)
  qed
  show "stage (snd (constructor r el p w)) = OPENED \<and>
     componentDidUpdate (constructor r el p w) = constructor r el p w \<and>
     (let c0 = constructor r el p w;
          c1 = run (if noBackdrop p then [Entered] else [Entered, Entered]) c0
      in stage (snd c1) = OPENED \<and>
         parents (fst c1) (parent (snd c0)) =
           Some (ident (snd c0) #
                 (case parents w (parent (snd c0)) of None \<Rightarrow> [] | Some ids \<Rightarrow> ids)) \<and>
         listeners (fst c1) =
           insert (''keydown'', OnKeydown r)
             (if withDocumentClicks p then insert (''click'', OnDocClick r) (listeners w)
              else listeners w) \<and>
         prevFocused (snd c1) = (if noFocus p then None else activeElement w) \<and>
         activeElement (fst c1) =
           (if noFocus p then activeElement w
            else (case el of Some e \<Rightarrow> Some e | None \<Rightarrow> activeElement w)) \<and>
         log (fst c1) =
           log w @ [SetState r OPENED] @
             (case onOpen_cb p of None \<Rightarrow> [] | Some l \<Rightarrow> [Called l]) \<and>
         styleAttr (fst c1) = styleAttr w \<and>
         styleCache (fst c1) = styleCache w \<and>
         scrollDisabledBy (fst c1) = scrollDisabledBy w)"
    using s0 noop after unfolding c0_def Let_def by simp
qed

text \<open>
  A modal with a backdrop shown on mount: registered, focused and reported open after two
  signals, with no scroll lock.
\<close>

theorem shown_on_mount_witness:
  "stage (snd (constructor 0 (Some (Element 1 True)) (props0\<lparr>show_flag := True\<rparr>) world0)) = OPENED \<and>
   componentDidUpdate (constructor 0 (Some (Element 1 True)) (props0\<lparr>show_flag := True\<rparr>) world0) =
     constructor 0 (Some (Element 1 True)) (props0\<lparr>show_flag := True\<rparr>) world0 \<and>
   parents (fst (run [Entered, Entered]
      (constructor 0 (Some (Element 1 True)) (props0\<lparr>show_flag := True\<rparr>) world0))) BODY =
     Some [IdNum 1] \<and>
   log (fst (run [Entered, Entered]
      (constructor 0 (Some (Element 1 True)) (props0\<lparr>show_flag := True\<rparr>) world0))) =
     [SetState 0 OPENED, Called ''onOpen''] \<and>
   activeElement (fst (run [Entered, Entered]
      (constructor 0 (Some (Element 1 True)) (props0\<lparr>show_flag := True\<rparr>) world0))) =
     Some (Element 1 True) \<and>
   scrollDisabledBy (fst (run [Entered, Entered]
      (constructor 0 (Some (Element 1 True)) (props0\<lparr>show_flag := True\<rparr>) world0))) = Map.empty"
  using shown_on_mount [where p = "props0\<lparr>show_flag := True\<rparr>" and r = 0
      and el = "Some (Element 1 True)" and w = world0]
  by (simp add: Let_def props0_def world0_def snd_constructor)

section \<open>Registry and the close sequence\<close>

text \<open>
  Claim C3. A second run of the close sequence for one instance must leave the registry
  entries of the other instances alone. The code does not: \<open>componentWillUnmount\<close> runs
  \<open>onClose\<close> whatever the stage is, and \<open>unregister\<close> calls
  \<open>ids.splice(ids.indexOf(id), 1)\<close> without looking at the index. With \<open>A\<close> and \<open>B\<close> open
  under \<open>document.body\<close>, \<open>A\<close> closes and its id leaves the list; when \<open>A\<close> is unmounted,
  \<open>indexOf\<close> is \<open>-1\<close> and \<open>splice(-1, 1)\<close> removes the last element, the id of \<open>B\<close>. The
  list is then empty and the entry of the container is deleted, although \<open>B\<close> is still
  \<open>OPENED\<close>; \<open>B\<close> is no longer on top and stops answering the Escape key.
\<close>

theorem unmount_after_close_removes_other:
  "stage (snd b_open) = OPENED \<and>
   parents (fst b_open) BODY = Some [IdNum 2, IdNum 1] \<and>
   stage (snd a_closed) = CLOSED \<and>
   parents (fst a_closed) BODY = Some [IdNum 2] \<and>
   isOnTop (fst a_closed, snd b_open) \<and>
   parents (fst a_unmounted) BODY = None \<and>
   \<not> isOnTop (fst a_unmounted, snd b_open)"
  by code_simp

text \<open>
  The registry at the end of that scenario.
\<close>

theorem unmount_after_close_removes_other_witness:
  "stage (snd b_open) = OPENED \<and> parents (fst a_unmounted) BODY = None"
  using unmount_after_close_removes_other by simp

section \<open>Scroll lock\<close>

text \<open>
  Claim C5, with the owner compared as the code compares it: by the string form of the id.
  An instance that takes the lock caches the style text the container had and records the
  string form of its id as owner. While an owner and a cached style are recorded, a release
  by an instance on the same container whose id has another string form changes nothing; a
  release by the owner sets the style text back to the cached string, removes the style
  attribute when that string is empty, and clears the cache and the owner.
\<close>

theorem scroll_lock_release:
  "(\<not> allowScroll (props a) \<and> styleCache w0 (target a) = None \<longrightarrow>
      styleCache (fst (disableScroll (w0, a))) (target a) = Some (cssText w0 (target a)) \<and>
      scrollDisabledBy (fst (disableScroll (w0, a))) (target a) = Some (toString (ident a))) \<and>
   (scrollDisabledBy w (target a) = Some (toString (ident a)) \<and>
    styleCache w (target a) = Some s \<longrightarrow>
      (target b = target a \<and> toString (ident b) \<noteq> toString (ident a) \<longrightarrow>
         restoreScroll (w, b) = (w, b)) \<and>
      cssText (fst (restoreScroll (w, a))) (target a) = s \<and>
      styleAttr (fst (restoreScroll (w, a))) (target a) = (if s = [] then None else Some s) \<and>
      styleCache (fst (restoreScroll (w, a))) (target a) = None \<and>
      scrollDisabledBy (fst (restoreScroll (w, a))) (target a) = None)"
  by (simp add: disableScroll_def restoreScroll_def lib_disableScroll_def cssText_def Let_def)

text \<open>
  A root element styled \<open>color: red;\<close>: locked by the instance with id 1, left alone by
  the instance with id 2, restored by the owner.
\<close>

theorem scroll_lock_release_witness:
  "styleCache (fst (disableScroll (world0\<lparr>styleAttr := [ROOT \<mapsto> ''color: red;'']\<rparr>, modal0))) ROOT =
     Some ''color: red;'' \<and>
   scrollDisabledBy (fst (disableScroll (world0\<lparr>styleAttr := [ROOT \<mapsto> ''color: red;'']\<rparr>, modal0)))
     ROOT = Some ''1'' \<and>
   restoreScroll (fst (disableScroll (world0\<lparr>styleAttr := [ROOT \<mapsto> ''color: red;'']\<rparr>, modal0)),
                  modal0\<lparr>ident := IdNum 2\<rparr>) =
     (fst (disableScroll (world0\<lparr>styleAttr := [ROOT \<mapsto> ''color: red;'']\<rparr>, modal0)),
      modal0\<lparr>ident := IdNum 2\<rparr>) \<and>
   styleAttr (fst (restoreScroll
      (fst (disableScroll (world0\<lparr>styleAttr := [ROOT \<mapsto> ''color: red;'']\<rparr>, modal0)), modal0)))
     ROOT = Some ''color: red;'' \<and>
   styleCache (fst (restoreScroll
      (fst (disableScroll (world0\<lparr>styleAttr := [ROOT \<mapsto> ''color: red;'']\<rparr>, modal0)), modal0)))
     ROOT = None"
  using scroll_lock_release [where a = modal0 and b = "modal0\<lparr>ident := IdNum 2\<rparr>"
      and ?w0.0 = "world0\<lparr>styleAttr := [ROOT \<mapsto> ''color: red;'']\<rparr>"
      and w = "fst (disableScroll (world0\<lparr>styleAttr := [ROOT \<mapsto> ''color: red;'']\<rparr>, modal0))"
      and s = "''color: red;''"]
  by (simp add: modal0_def props0_def world0_def target_def cssText_def digits_1 digits_2)

text \<open>
  Two different ids can have one string form: the generated number 1 and the string
  \<open>"1"\<close> given as \<open>props.id\<close>. \<open>restoreScroll\<close> compares \<open>id.toString()\<close> with the recorded
  owner, so the second instance releases the lock the first one holds.
\<close>

theorem release_by_other_id_counterexample:
  "ident (snd otherB) \<noteq> ident (snd lockA) \<and>
   target (snd otherB) = target (snd lockA) \<and>
   scrollDisabledBy (fst otherB) ROOT = Some (toString (ident (snd lockA))) \<and>
   styleCache (fst otherB) ROOT = Some [] \<and>
   styleAttr (fst otherB) ROOT = Some ''overflow: hidden;'' \<and>
   scrollDisabledBy (fst (restoreScroll otherB)) ROOT = None \<and>
   styleCache (fst (restoreScroll otherB)) ROOT = None \<and>
   styleAttr (fst (restoreScroll otherB)) ROOT = None"
  by code_simp

section \<open>Event wiring\<close>

text \<open>
  Claim C6. On an Escape keydown the handler calls \<open>preventDefault\<close> and then
  \<open>onCloseRequest\<close> if and only if the registry has a list for the instance's container
  whose front element is the instance's id; otherwise the handler does nothing.
\<close>

theorem escape_topmost:
  "onKeydown ''Escape'' (w, i) =
     (if isOnTop (w, i)
      then (w\<lparr>log := log w @ [PreventDefault, Called (onCloseRequest_cb (props i))]\<rparr>, i)
      else (w, i)) \<and>
   (isOnTop (w, i) \<longleftrightarrow> (\<exists>rest. parents w (parent i) = Some (ident i # rest)))"
  by (auto simp: onKeydown_def isOnTop_def call_def split: option.splits list.splits)

text \<open>
  The instance with id 1 at the front of the list, behind the instance with id 2, and
  with no list at all.
\<close>

theorem escape_topmost_witness:
  "onKeydown ''Escape'' (world0\<lparr>parents := [BODY \<mapsto> [IdNum 1, IdNum 2]]\<rparr>, modal0) =
     (world0\<lparr>parents := [BODY \<mapsto> [IdNum 1, IdNum 2]],
             log := [PreventDefault, Called ''onCloseRequest'']\<rparr>, modal0) \<and>
   onKeydown ''Escape'' (world0\<lparr>parents := [BODY \<mapsto> [IdNum 2, IdNum 1]]\<rparr>, modal0) =
     (world0\<lparr>parents := [BODY \<mapsto> [IdNum 2, IdNum 1]]\<rparr>, modal0) \<and>
   onKeydown ''Escape'' (world0, modal0) = (world0, modal0)"
  using escape_topmost [where w = "world0\<lparr>parents := [BODY \<mapsto> [IdNum 1, IdNum 2]]\<rparr>"
      and i = modal0]
    escape_topmost [where w = "world0\<lparr>parents := [BODY \<mapsto> [IdNum 2, IdNum 1]]\<rparr>"
      and i = modal0]
    escape_topmost [where w = world0 and i = modal0]
  by (simp add: modal0_def props0_def world0_def isOnTop_def)

text \<open>
  Claim C7, for the stages in which the code has the listeners attached. \<open>addDocEvents\<close>
  runs in \<open>onOpen\<close>, when the stage becomes \<open>OPENED\<close>, and \<open>removeDocEvents\<close> in
  \<open>onClose\<close>, when it becomes \<open>CLOSED\<close>. So for an instance constructed hidden (its
  handlers are not on the document before its construction), after any sequence of
  re-renders and completion signals, its keydown listener is on the document exactly when
  the stage is \<open>OPENED\<close> or \<open>CLOSING\<close>. Its click listener is there exactly when moreover
  \<open>withDocumentClicks\<close> is set, as long as no re-render changes \<open>withDocumentClicks\<close> while
  the stage is \<open>OPENED\<close> or \<open>CLOSING\<close>. The show update and the enter signals take the
  instance to \<open>OPENED\<close>, with the keydown listener attached; the hide update and the exit
  signals take it back to \<open>CLOSED\<close>, with neither listener attached.
\<close>

theorem listeners_follow_stage:
  "\<not> show_flag p \<Longrightarrow> (''keydown'', OnKeydown r) \<notin> listeners w \<Longrightarrow>
   (''click'', OnDocClick r) \<notin> listeners w \<Longrightarrow>
   (let c = run evs (constructor r el p w);
        on = (stage (snd c) = OPENED \<or> stage (snd c) = CLOSING)
    in ((''keydown'', OnKeydown r) \<in> listeners (fst c)) = on \<and>
       (clicks_steady evs (constructor r el p w) \<longrightarrow>
          ((''click'', OnDocClick r) \<in> listeners (fst c)) =
            (withDocumentClicks (props (snd c)) \<and> on))) \<and>
   (let c = run (Update True # (if noBackdrop p then [Entered] else [Entered, Entered]))
              (constructor r el p w)
    in stage (snd c) = OPENED \<and> (''keydown'', OnKeydown r) \<in> listeners (fst c)) \<and>
   (let c = run (Update True # (if noBackdrop p
                    then [Entered, Update False, Completed]
                    else [Entered, Entered, Update False, Completed, Completed]))
              (constructor r el p w)
    in stage (snd c) = CLOSED \<and> (''keydown'', OnKeydown r) \<notin> listeners (fst c) \<and>
       (''click'', OnDocClick r) \<notin> listeners (fst c))"
proof -
  assume h: "\<not> show_flag p" "(''keydown'', OnKeydown r) \<notin> listeners w"
    "(''click'', OnDocClick r) \<notin> listeners w"
  have kd: "((''keydown'', OnKeydown r) \<in> listeners (fst (run es (constructor r el p w)))) =
      (stage (snd (run es (constructor r el p w))) = OPENED \<or>
       stage (snd (run es (constructor r el p w))) = CLOSING)" for es
  proof -
    have "keydown_wired (constructor r el p w)"
      by (rule wired_constructor(1) [OF h(1) h(2)])
    then have "keydown_wired (run es (constructor r el p w))"
      by (rule keydown_wired_run)
    then show ?thesis
      by (simp add: keydown_wired_def stage_on_def self_run snd_constructor)
  qed
  have ck: "((''click'', OnDocClick r) \<in> listeners (fst (run es (constructor r el p w)))) =
      (withDocumentClicks (props (snd (run es (constructor r el p w)))) \<and>
       (stage (snd (run es (constructor r el p w))) = OPENED \<or>
        stage (snd (run es (constructor r el p w))) = CLOSING))"
    if "clicks_steady es (constructor r el p w)" for es
  proof -
    have "click_wired (constructor r el p w)"
      by (rule wired_constructor(2) [OF h(1) h(3)])
    then have "click_wired (run es (constructor r el p w))"
      using that by (rule click_wired_run)
    then show ?thesis
      by (simp add: click_wired_def stage_on_def self_run snd_constructor)
  qed
  have op: "stage (snd (run (Update True # (if noBackdrop p then [Entered]
      else [Entered, Entered])) (constructor r el p w))) = OPENED"
    by (rule snd_open_cycle [OF h(1)])
  have cl: "stage (snd (run (Update True # (if noBackdrop p
                      then [Entered, Update False, Completed]
                      else [Entered, Entered, Update False, Completed, Completed]))
      (constructor r el p w))) = CLOSED"
    by (rule snd_close_cycle [OF h(1)])
  have st: "clicks_steady (Update True # (if noBackdrop p
                      then [Entered, Update False, Completed]
                      else [Entered, Entered, Update False, Completed, Completed]))
      (constructor r el p w)"
    by simp
  show ?thesis
    unfolding Let_def
    using kd [of evs] ck [of evs]
      kd [of "Update True # (if noBackdrop p then [Entered] else [Entered, Entered])"]
      kd [of "Update True # (if noBackdrop p
                      then [Entered, Update False, Completed]
                      else [Entered, Entered, Update False, Completed, Completed])"]
      ck [OF st] op cl
    by (simp del: run.simps step.simps clicks_steady.simps)
qed

text \<open>
  After the show update and two enter signals the stage is \<open>OPENED\<close> and both listeners
  are attached.
\<close>

theorem listeners_follow_stage_witness:
  "\<not> show_flag props0 \<and> (''keydown'', OnKeydown 0) \<notin> listeners world0 \<and>
   (''click'', OnDocClick 0) \<notin> listeners world0 \<and>
   clicks_steady [Update True, Entered, Entered]
     (constructor 0 (Some (Element 1 True)) props0 world0) \<and>
   stage (snd (run [Update True, Entered, Entered]
      (constructor 0 (Some (Element 1 True)) props0 world0))) = OPENED \<and>
   (''keydown'', OnKeydown 0) \<in> listeners (fst (run [Update True, Entered, Entered]
      (constructor 0 (Some (Element 1 True)) props0 world0))) \<and>
   (''click'', OnDocClick 0) \<in> listeners (fst (run [Update True, Entered, Entered]
      (constructor 0 (Some (Element 1 True)) props0 world0)))"
proof -
  have h1: "\<not> show_flag props0"
    by (simp add: props0_def)
  have h2: "(''keydown'', OnKeydown 0) \<notin> listeners world0"
    and h3: "(''click'', OnDocClick 0) \<notin> listeners world0"
    by (simp_all add: world0_def)
  have h4: "clicks_steady [Update True, Entered, Entered]
      (constructor 0 (Some (Element 1 True)) props0 world0)"
    by simp
  have st: "stage (snd (run [Update True, Entered, Entered]
      (constructor 0 (Some (Element 1 True)) props0 world0))) = OPENED"
    by code_simp
  have dc: "withDocumentClicks (props (snd (run [Update True, Entered, Entered]
      (constructor 0 (Some (Element 1 True)) props0 world0))))"
    by code_simp
  show ?thesis
    using listeners_follow_stage [OF h1 h2 h3, where evs = "[Update True, Entered, Entered]"
        and el = "Some (Element 1 True)"]
      h1 h2 h3 h4 st dc
    by (simp add: Let_def del: run.simps step.simps clicks_steady.simps)
qed

text \<open>
  A stage other than \<open>CLOSED\<close> with no listener: right after the show update the stage
  is \<open>OPENING\<close> and the document has neither the keydown nor the click listener of the
  instance. The same holds for an instance constructed with \<open>show\<close> true, which is
  \<open>OPENED\<close> before any signal. And a listener in the stage \<open>CLOSED\<close>: when
  \<open>withDocumentClicks\<close> is switched off while the modal is open, \<open>removeDocEvents\<close> skips the
  click listener, which stays on the document after the modal has closed.
\<close>

theorem opening_without_listener_counterexample:
  "stage (snd just_shown) = OPENING \<and> stage (snd just_shown) \<noteq> CLOSED \<and>
   (''keydown'', OnKeydown 0) \<notin> listeners (fst just_shown) \<and>
   (''click'', OnDocClick 0) \<notin> listeners (fst just_shown) \<and>
   withDocumentClicks (props (snd just_shown)) \<and>
   stage (snd just_mounted) = OPENED \<and>
   (''keydown'', OnKeydown 0) \<notin> listeners (fst just_mounted) \<and>
   (''click'', OnDocClick 0) \<notin> listeners (fst just_mounted) \<and>
   stage (snd clicks_switched_off) = CLOSED \<and>
   (''click'', OnDocClick 0) \<in> listeners (fst clicks_switched_off)"
  by code_simp

section \<open>Focus memory\<close>

text \<open>
  Claim C8, without the clearing of the record. On reaching \<open>OPENED\<close> with focus capture
  enabled, \<open>onOpen\<close> records the focused element and moves focus to the root element of the
  modal, if the portal has one; with \<open>noFocus\<close> it does neither. On reaching \<open>CLOSED\<close>,
  \<open>onClose\<close> moves focus back to the recorded element if there is one and it has a
  \<open>focus\<close> method. The record itself is left as it is.
\<close>

theorem focus_memory:
  "(\<not> noFocus (props i) \<longrightarrow>
      prevFocused (snd (onOpen (w, i))) = activeElement w \<and>
      activeElement (fst (onOpen (w, i))) =
        (case portal i of Some e \<Rightarrow> Some e | None \<Rightarrow> activeElement w)) \<and>
   (noFocus (props i) \<longrightarrow>
      prevFocused (snd (onOpen (w, i))) = prevFocused i \<and>
      activeElement (fst (onOpen (w, i))) = activeElement w) \<and>
   activeElement (fst (onClose (w, i))) =
     (case prevFocused i of
        Some e \<Rightarrow> if has_focus e then Some e else activeElement w
      | None \<Rightarrow> activeElement w) \<and>
   prevFocused (snd (onClose (w, i))) = prevFocused i"
  by (simp add: snd_onOpen activeElement_onOpen activeElement_onClose split: option.splits)

text \<open>
  Opening from a page focused on element 7, and closing with that record.
\<close>

theorem focus_memory_witness:
  "prevFocused (snd (onOpen (world0, modal0))) = Some (Element 7 True) \<and>
   activeElement (fst (onOpen (world0, modal0))) = Some (Element 1 True) \<and>
   activeElement (fst (onClose (world0\<lparr>activeElement := Some (Element 1 True)\<rparr>,
      modal0\<lparr>prevFocused := Some (Element 7 True)\<rparr>))) = Some (Element 7 True) \<and>
   prevFocused (snd (onClose (world0\<lparr>activeElement := Some (Element 1 True)\<rparr>,
      modal0\<lparr>prevFocused := Some (Element 7 True)\<rparr>))) = Some (Element 7 True)"
  using focus_memory [where w = world0 and i = modal0]
    focus_memory [where w = "world0\<lparr>activeElement := Some (Element 1 True)\<rparr>"
      and i = "modal0\<lparr>prevFocused := Some (Element 7 True)\<rparr>"]
  by (simp add: modal0_def props0_def world0_def)

text \<open>
  The record is not cleared: after a full cycle the instance is \<open>CLOSED\<close> and still holds
  the element recorded at opening. A later cycle with \<open>noFocus\<close>, started with the focus on
  another element, ends with the focus on the element of the old record.
\<close>

theorem focus_record_kept_counterexample:
  "stage (snd closed_once) = CLOSED \<and>
   prevFocused (snd closed_once) = Some (Element 7 True) \<and>
   prevFocused (snd closed_once) \<noteq> None \<and>
   activeElement (fst stale_cycle) = Some (Element 7 True)"
  by code_simp

section \<open>Render projection\<close>

text \<open>
  Claim C9. \<open>render\<close> produces nothing when the stage is \<open>CLOSED\<close>. Otherwise it produces a
  body node and, unless \<open>noBackdrop\<close> is set, a backdrop node, each with the visibility flag
  \<open>stage \<noteq> CLOSING\<close>; an instance constructed with \<open>show\<close> true renders both as visible.
\<close>

theorem render_projection:
  "(stage i = CLOSED \<longrightarrow> render i = None) \<and>
   (stage i \<noteq> CLOSED \<longrightarrow>
      (\<exists>rd. render i = Some rd \<and> a_show (r_body rd) = (stage i \<noteq> CLOSING) \<and>
         (noBackdrop (props i) \<longrightarrow> r_backdrop rd = None) \<and>
         (\<not> noBackdrop (props i) \<longrightarrow>
            (\<exists>bd. r_backdrop rd = Some bd \<and> a_show bd = (stage i \<noteq> CLOSING))))) \<and>
   (show_flag p \<longrightarrow>
      (\<exists>rd. render (snd (constructor r el p w)) = Some rd \<and> a_show (r_body rd) \<and>
         (\<not> noBackdrop p \<longrightarrow> (\<exists>bd. r_backdrop rd = Some bd \<and> a_show bd))))"
  by (simp add: render_def Let_def snd_constructor)

text \<open>
  A closed instance, a closing one, an opening one without backdrop, and one shown on
  mount.
\<close>

theorem render_projection_witness:
  "render modal0 = None \<and>
   (\<exists>rd. render (modal0\<lparr>stage := CLOSING\<rparr>) = Some rd \<and> \<not> a_show (r_body rd) \<and>
      (\<exists>bd. r_backdrop rd = Some bd \<and> \<not> a_show bd)) \<and>
   (\<exists>rd. render (modal0\<lparr>stage := OPENING, props := props0\<lparr>noBackdrop := True\<rparr>\<rparr>) = Some rd \<and>
      a_show (r_body rd) \<and> r_backdrop rd = None) \<and>
   (\<exists>rd. render (snd (constructor 0 None (props0\<lparr>show_flag := True\<rparr>) world0)) = Some rd \<and>
      a_show (r_body rd) \<and> (\<exists>bd. r_backdrop rd = Some bd \<and> a_show bd))"
  using render_projection [where i = modal0 and p = "props0\<lparr>show_flag := True\<rparr>"
      and r = 0 and el = None and w = world0]
    render_projection [where i = "modal0\<lparr>stage := CLOSING\<rparr>"
      and p = "props0\<lparr>show_flag := True\<rparr>" and r = 0 and el = None and w = world0]
    render_projection [where i = "modal0\<lparr>stage := OPENING, props := props0\<lparr>noBackdrop := True\<rparr>\<rparr>"
      and p = "props0\<lparr>show_flag := True\<rparr>" and r = 0 and el = None and w = world0]
  by (simp add: modal0_def props0_def)

end
